theory Spec2Isabelle
  imports Main "HOL-Library.Multiset"
begin

section \<open>Data model\<close>

text \<open>
  The service of \<^verbatim>\<open>server.js\<close> keeps two collections in a document database (users and
  claim-history entries) and a set of connected realtime clients. Document identifiers are
  written in their canonical hexadecimal form.
\<close>

type_synonym objid = string

text \<open>
  Modelled from the spec: the schema \<^verbatim>\<open>models/User\<close> is required by \<^verbatim>\<open>server.js\<close> but
  is not among the sources. The spec gives a user an identifier, a \<open>name\<close> (a string, required,
  unique across all users) and \<open>totalPoints\<close> (an integer, 0 at creation). The handlers
  hold the score as a double and add to it as doubles add (\<open>js_add\<close> below).
\<close>

record user =
  user_id :: objid
  name :: string
  totalPoints :: int

text \<open>
  Modelled from the spec: the schema \<^verbatim>\<open>models/ClaimHistory\<close> is not among the sources
  either. An entry refers to a user and holds the amount awarded.
\<close>

record claim_history =
  history_userId :: objid
  pointsClaimed :: int

text \<open>
  JSON values as the handlers build them. \<open>JDoc\<close> is a user document handed to
  \<^verbatim>\<open>res.json\<close> as it is; an object literal is the list of its keys and values in the
  order of the source.
\<close>

datatype json =
    JNum int
  | JStr string
  | JDoc user
  | JArr "json list"
  | JObj "(string \<times> json) list"

record response =
  status :: nat
  body :: json

text \<open>
  The errors a storage call can reject with. Only the duplicate-key error carries the code
  11000 that the registration handler tests for.
\<close>

datatype db_error = DuplicateKey | CastError | DocumentNotFound | StorageFailure

fun error_code :: "db_error \<Rightarrow> nat option" where
  "error_code DuplicateKey = Some 11000"
| "error_code CastError = None"
| "error_code DocumentNotFound = None"
| "error_code StorageFailure = None"

text \<open>The storage calls the source awaits, recorded in the order they are sent.\<close>

datatype db_call =
    Find
  | FindSorted
  | FindById
  | SaveNewUser
  | SaveUser
  | SaveHistory
  | CountDocuments
  | InsertMany nat

text \<open>
  What the handlers do not decide themselves: whether the storage layer answers a call,
  which request strings cast to a document identifier, the identifiers generated for new
  documents, and the number \<^verbatim>\<open>Math.random()\<close> returns. A double in the interval from 0
  (inclusive) to 1 (exclusive) is a pair \<open>(m, e)\<close> standing for \<open>m / 2 ^ e\<close>.
\<close>

record env =
  available :: "db_call \<Rightarrow> bool"
  castObjectId :: "string \<Rightarrow> objid option"
  newObjectId :: "nat \<Rightarrow> objid"
  Math_random :: "nat \<times> nat"

text \<open>
  The state of the process and its database: both collections, every connected realtime
  client with the \<^verbatim>\<open>leaderboardUpdate\<close> payloads it has received, and the storage calls
  sent so far.
\<close>

record state =
  users :: "user list"
  claims :: "claim_history list"
  clients :: "(string \<times> json list) list"
  calls :: "db_call list"

section \<open>Numbers\<close>

text \<open>
  \<^verbatim>\<open>Math.random() * 10\<close> is a multiplication of doubles: the exact product, rounded to
  53 significant bits, ties to even. With the random number \<open>m / 2 ^ e\<close> the exact product
  is \<open>(m * 10) / 2 ^ e\<close>, so the rounding acts on the integer \<open>m * 10\<close>: a product below
  \<open>2 ^ 53\<close> is a double as it is, and a larger one is cut to its 53 leading bits. The result
  is \<open>round53 (m * 10) / 2 ^ e\<close>, and \<^verbatim>\<open>Math.floor\<close> of it is the integer quotient.
\<close>

fun bitlen :: "nat \<Rightarrow> nat" where
  "bitlen n = (if n = 0 then 0 else Suc (bitlen (n div 2)))"

definition round53 :: "nat \<Rightarrow> nat" where
  "round53 n =
     (if n < 2 ^ 53 then n
      else let s = bitlen n - 53;
               q = n div 2 ^ s;
               r = n mod 2 ^ s;
               h = 2 ^ (s - 1)
           in (if h < r \<or> (r = h \<and> odd q) then q + 1 else q) * 2 ^ s)"

text \<open>
  What \<^verbatim>\<open>Math.random()\<close> can return: a double that is at least 0 and less than 1, so a
  significand of at most 53 bits and no bit below \<open>2 ^ - 1074\<close>.
\<close>

definition is_unit_double :: "nat \<times> nat \<Rightarrow> bool" where
  "is_unit_double d = (case d of (m, e) \<Rightarrow> m < 2 ^ 53 \<and> m < 2 ^ e \<and> e \<le> 1074)"

text \<open>\<^verbatim>\<open>Math.floor(Math.random() * 10) + 1\<close>\<close>

definition randomPoints :: "nat \<times> nat \<Rightarrow> int" where
  "randomPoints d = (case d of (m, e) \<Rightarrow> int (round53 (m * 10) div 2 ^ e) + 1)"

text \<open>
  \<^verbatim>\<open>user.totalPoints += randomPoints\<close> adds two doubles that hold integers: the exact
  sum, rounded to 53 significant bits, ties to even, with its sign. A sum of magnitude up
  to \<open>2 ^ 53\<close> is exact; beyond it the stored score moves in steps of 2 or more. An award of
  at most 10 never takes a finite score to infinity.
\<close>

definition js_add :: "int \<Rightarrow> int \<Rightarrow> int" where
  "js_add a b =
     (let n = a + b
      in if n < 0 then - int (round53 (nat (- n))) else int (round53 (nat n)))"

text \<open>The decimal digits of a number, as a template literal prints it.\<close>

fun digits :: "nat \<Rightarrow> string" where
  "digits n =
     (if n < 10 then [''0123456789'' ! n]
      else digits (n div 10) @ [''0123456789'' ! (n mod 10)])"

definition show_int :: "int \<Rightarrow> string" where
  "show_int i = (if i < 0 then CHR ''-'' # digits (nat (- i)) else digits (nat i))"

section \<open>The storage layer\<close>

definition record_call :: "db_call \<Rightarrow> state \<Rightarrow> state" where
  "record_call c s = s\<lparr>calls := calls s @ [c]\<rparr>"

text \<open>\<^verbatim>\<open>User.find({}).sort({ totalPoints: -1 })\<close>: all users, highest score first.\<close>

definition User_find_sorted :: "env \<Rightarrow> state \<Rightarrow> (db_error + user list) \<times> state" where
  "User_find_sorted ev s =
     (if available ev FindSorted
      then Inr (sort_key (\<lambda>u. - totalPoints u) (users s))
      else Inl StorageFailure,
      record_call FindSorted s)"

text \<open>\<^verbatim>\<open>User.find({})\<close>\<close>

definition User_find :: "env \<Rightarrow> state \<Rightarrow> (db_error + user list) \<times> state" where
  "User_find ev s =
     (if available ev Find then Inr (users s) else Inl StorageFailure,
      record_call Find s)"

text \<open>
  \<^verbatim>\<open>User.findById(userId)\<close>: the string is cast to an identifier before the query is sent;
  a string that does not cast rejects with a cast error. The result is the document with
  that identifier, or null.
\<close>

definition User_findById :: "env \<Rightarrow> string \<Rightarrow> state \<Rightarrow> (db_error + user option) \<times> state" where
  "User_findById ev userId s =
     (case castObjectId ev userId of
        None \<Rightarrow> (Inl CastError, s)
      | Some oid \<Rightarrow>
          (if available ev FindById
           then Inr (find (\<lambda>u. user_id u = oid) (users s))
           else Inl StorageFailure,
           record_call FindById s))"

text \<open>
  Modelled from the spec: the unique index on \<open>name\<close> is declared by the schema
  \<^verbatim>\<open>models/User\<close>, which is not among the sources. The identifier is unique in every
  collection.
\<close>

definition duplicate_key :: "user \<Rightarrow> user list \<Rightarrow> bool" where
  "duplicate_key doc us = (\<exists>u \<in> set us. user_id u = user_id doc \<or> name u = name doc)"

text \<open>
  Modelled from the spec: \<^verbatim>\<open>new User({ name })\<close> with the defaults of the schema
  \<^verbatim>\<open>models/User\<close>, which is not among the sources: \<open>totalPoints\<close> is 0 at creation.
\<close>

definition new_User :: "objid \<Rightarrow> string \<Rightarrow> user" where
  "new_User oid n = \<lparr>user_id = oid, name = n, totalPoints = 0\<rparr>"

text \<open>\<^verbatim>\<open>newUser.save()\<close> of a document that is not stored yet: an insert.\<close>

definition save_new_user :: "env \<Rightarrow> user \<Rightarrow> state \<Rightarrow> (db_error + unit) \<times> state" where
  "save_new_user ev doc s =
     (let s1 = record_call SaveNewUser s in
      if \<not> available ev SaveNewUser then (Inl StorageFailure, s1)
      else if duplicate_key doc (users s) then (Inl DuplicateKey, s1)
      else (Inr (), s1\<lparr>users := users s @ [doc]\<rparr>))"

text \<open>
  \<^verbatim>\<open>user.save()\<close> of a stored document whose \<open>totalPoints\<close> was modified: the new value
  is set on the stored document with that identifier.
\<close>

fun set_totalPoints :: "objid \<Rightarrow> int \<Rightarrow> user list \<Rightarrow> user list" where
  "set_totalPoints oid p [] = []"
| "set_totalPoints oid p (u # us) =
     (if user_id u = oid then u\<lparr>totalPoints := p\<rparr> # us
      else u # set_totalPoints oid p us)"

definition save_user :: "env \<Rightarrow> user \<Rightarrow> state \<Rightarrow> (db_error + unit) \<times> state" where
  "save_user ev doc s =
     (let s1 = record_call SaveUser s in
      if \<not> available ev SaveUser then (Inl StorageFailure, s1)
      else if find (\<lambda>u. user_id u = user_id doc) (users s) = None
      then (Inl DocumentNotFound, s1)
      else (Inr (), s1\<lparr>users := set_totalPoints (user_id doc) (totalPoints doc) (users s)\<rparr>))"

text \<open>\<^verbatim>\<open>historyRecord.save()\<close>\<close>

definition save_history :: "env \<Rightarrow> claim_history \<Rightarrow> state \<Rightarrow> (db_error + unit) \<times> state" where
  "save_history ev h s =
     (let s1 = record_call SaveHistory s in
      if \<not> available ev SaveHistory then (Inl StorageFailure, s1)
      else (Inr (), s1\<lparr>claims := claims s @ [h]\<rparr>))"

text \<open>\<^verbatim>\<open>User.countDocuments()\<close>\<close>

definition User_countDocuments :: "env \<Rightarrow> state \<Rightarrow> (db_error + nat) \<times> state" where
  "User_countDocuments ev s =
     (if available ev CountDocuments then Inr (length (users s)) else Inl StorageFailure,
      record_call CountDocuments s)"

text \<open>
  \<^verbatim>\<open>User.insertMany(docs)\<close>: one call carrying the whole batch. The documents are inserted
  in order; the first one the collection refuses ends the call, and those before it stay.
\<close>

fun insert_ordered :: "user list \<Rightarrow> user list \<Rightarrow> db_error option \<times> user list" where
  "insert_ordered [] us = (None, us)"
| "insert_ordered (d # ds) us =
     (if duplicate_key d us then (Some DuplicateKey, us)
      else insert_ordered ds (us @ [d]))"

definition User_insertMany :: "env \<Rightarrow> user list \<Rightarrow> state \<Rightarrow> (db_error + unit) \<times> state" where
  "User_insertMany ev docs s =
     (let c = InsertMany (length docs);
          s1 = record_call c s
      in if \<not> available ev c then (Inl StorageFailure, s1)
         else case insert_ordered docs (users s) of
                (Some e, us) \<Rightarrow> (Inl e, s1\<lparr>users := us\<rparr>)
              | (None, us) \<Rightarrow> (Inr (), s1\<lparr>users := us\<rparr>))"

section \<open>The leaderboard and the realtime channel\<close>

text \<open>
  \<^verbatim>\<open>users.map((user, index) => ({ rank: index + 1, name: user.name,
  totalPoints: user.totalPoints, _id: user._id }))\<close>
\<close>

definition leaderboard_entry :: "nat \<times> user \<Rightarrow> json" where
  "leaderboard_entry p =
     (case p of (index, u) \<Rightarrow>
        JObj [(''rank'', JNum (int index + 1)),
              (''name'', JStr (name u)),
              (''totalPoints'', JNum (totalPoints u)),
              (''_id'', JStr (user_id u))])"

definition getLeaderboard :: "env \<Rightarrow> state \<Rightarrow> (db_error + json list) \<times> state" where
  "getLeaderboard ev s =
     (case User_find_sorted ev s of
        (Inl e, s1) \<Rightarrow> (Inl e, s1)
      | (Inr us, s1) \<Rightarrow> (Inr (map leaderboard_entry (enumerate 0 us)), s1))"

text \<open>\<^verbatim>\<open>io.emit('leaderboardUpdate', payload)\<close>: every connected client receives the payload.\<close>

definition io_emit :: "json \<Rightarrow> state \<Rightarrow> state" where
  "io_emit payload s = s\<lparr>clients := map (\<lambda>(sid, inbox). (sid, inbox @ [payload])) (clients s)\<rparr>"

text \<open>\<^verbatim>\<open>socket.emit('leaderboardUpdate', payload)\<close>: that one client receives the payload.\<close>

definition socket_emit :: "string \<Rightarrow> json \<Rightarrow> state \<Rightarrow> state" where
  "socket_emit socket payload s =
     s\<lparr>clients := map (\<lambda>(sid, inbox). if sid = socket then (sid, inbox @ [payload]) else (sid, inbox))
                       (clients s)\<rparr>"

text \<open>
  \<^verbatim>\<open>io.on('connection', async (socket) => ...)\<close>: the socket has joined the connected
  clients when the callback runs. A rejection of the awaited leaderboard is not caught:
  nothing is sent.
\<close>

definition on_connection :: "env \<Rightarrow> string \<Rightarrow> state \<Rightarrow> state" where
  "on_connection ev socket s =
     (case getLeaderboard ev (s\<lparr>clients := clients s @ [(socket, [])]\<rparr>) of
        (Inl e, s1) \<Rightarrow> s1
      | (Inr board, s1) \<Rightarrow> socket_emit socket (JArr board) s1)"

section \<open>Request handlers\<close>

definition message :: "nat \<Rightarrow> string \<Rightarrow> response" where
  "message code msg = \<lparr>status = code, body = JObj [(''message'', JStr msg)]\<rparr>"

text \<open>
  \<^verbatim>\<open>app.post('/api/claim')\<close>. The request body carries \<open>userId\<close> as a string or not at all;
  \<^verbatim>\<open>!userId\<close> holds for a missing field and for the empty string. Every rejection of an
  awaited call is caught and answered with status 500; what was written before stays
  written. The award is added to the score as doubles add.
\<close>

text \<open>\<^verbatim>\<open>app.get('/api/users')\<close>\<close>

definition get_users :: "env \<Rightarrow> state \<Rightarrow> response \<times> state" where
  "get_users ev s =
     (case User_find ev s of
        (Inl e, s1) \<Rightarrow> (message 500 ''Error fetching users'', s1)
      | (Inr us, s1) \<Rightarrow> (\<lparr>status = 200, body = JArr (map JDoc us)\<rparr>, s1))"

text \<open>
  \<^verbatim>\<open>app.post('/api/users')\<close>. The request body carries \<open>name\<close> as a string or not at all.
  The catch block answers 409 to an error whose code is 11000 and 500 to any other.
\<close>

definition users_error :: "db_error \<Rightarrow> response" where
  "users_error e =
     (if error_code e = Some 11000 then message 409 ''Error: This user name already exists.''
      else message 500 ''Error adding user'')"

definition post_users :: "env \<Rightarrow> string option \<Rightarrow> state \<Rightarrow> response \<times> state" where
  "post_users ev nm s =
     (case nm of
        None \<Rightarrow> (message 400 ''Name is required'', s)
      | Some n \<Rightarrow>
          if n = [] then (message 400 ''Name is required'', s)
          else
            (let newUser = new_User (newObjectId ev 0) n
             in case save_new_user ev newUser s of
                  (Inl e, s1) \<Rightarrow> (users_error e, s1)
                | (Inr _, s1) \<Rightarrow>
                    (case getLeaderboard ev s1 of
                       (Inl e, s2) \<Rightarrow> (users_error e, s2)
                     | (Inr board, s2) \<Rightarrow>
                         (\<lparr>status = 201, body = JDoc newUser\<rparr>, io_emit (JArr board) s2))))"

definition claim_response :: "int \<Rightarrow> user \<Rightarrow> response" where
  "claim_response pts usr =
     \<lparr>status = 200,
      body = JObj [(''message'', JStr (''Awarded '' @ show_int pts @ '' points to '' @ name usr)),
                   (''pointsAwarded'', JNum pts),
                   (''user'', JDoc usr)]\<rparr>"

definition post_claim :: "env \<Rightarrow> string option \<Rightarrow> state \<Rightarrow> response \<times> state" where
  "post_claim ev userId s =
     (case userId of
        None \<Rightarrow> (message 400 ''User ID is required'', s)
      | Some uid \<Rightarrow>
          if uid = [] then (message 400 ''User ID is required'', s)
          else
            (case User_findById ev uid s of
               (Inl e, s1) \<Rightarrow> (message 500 ''Error claiming points'', s1)
             | (Inr None, s1) \<Rightarrow> (message 404 ''User not found'', s1)
             | (Inr (Some found), s1) \<Rightarrow>
                 (let pts = randomPoints (Math_random ev);
                      usr = found\<lparr>totalPoints := js_add (totalPoints found) pts\<rparr>
                  in case save_user ev usr s1 of
                       (Inl e, s2) \<Rightarrow> (message 500 ''Error claiming points'', s2)
                     | (Inr _, s2) \<Rightarrow>
                         (case save_history ev
                                 \<lparr>history_userId = user_id usr, pointsClaimed = pts\<rparr> s2 of
                            (Inl e, s3) \<Rightarrow> (message 500 ''Error claiming points'', s3)
                          | (Inr _, s3) \<Rightarrow>
                              (case getLeaderboard ev s3 of
                                 (Inl e, s4) \<Rightarrow> (message 500 ''Error claiming points'', s4)
                               | (Inr board, s4) \<Rightarrow>
                                   (claim_response pts usr, io_emit (JArr board) s4))))))"

section \<open>Seeding\<close>

definition initialUsers :: "string list" where
  "initialUsers =
     [''Rahul'', ''Kamal'', ''Sanak'', ''Priya'', ''Amit'',
      ''Sunita'', ''Vikram'', ''Anjali'', ''Deepak'', ''Meera'']"

text \<open>
  \<^verbatim>\<open>seedDatabase\<close>: every rejection is caught and logged. The documents of the batch
  get their identifiers and defaults when \<^verbatim>\<open>insertMany\<close> builds them.
\<close>

definition seedDatabase :: "env \<Rightarrow> state \<Rightarrow> state" where
  "seedDatabase ev s =
     (case User_countDocuments ev s of
        (Inl e, s1) \<Rightarrow> s1
      | (Inr userCount, s1) \<Rightarrow>
          if userCount = 0
          then (let usersToInsert =
                      map (\<lambda>(i, n). new_User (newObjectId ev i) n) (enumerate 0 initialUsers)
                in snd (User_insertMany ev usersToInsert s1))
          else s1)"

section \<open>Reading a payload\<close>

text \<open>The keys of an object in their order, and the value an object holds under a key.\<close>

definition keys :: "json \<Rightarrow> string list" where
  "keys j = (case j of JObj kvs \<Rightarrow> map fst kvs | _ \<Rightarrow> [])"

definition field :: "string \<Rightarrow> json \<Rightarrow> json option" where
  "field k j = (case j of JObj kvs \<Rightarrow> map_of kvs k | _ \<Rightarrow> None)"

text \<open>
  A payload is ranked for a user collection when its entries carry the ranks 1, 2, ... up
  to the number of users, in this order, and their \<open>totalPoints\<close> are the users' scores from
  the highest to the lowest.
\<close>

definition ranked_descending :: "user list \<Rightarrow> json \<Rightarrow> bool" where
  "ranked_descending us payload =
     (case payload of
        JArr board \<Rightarrow>
          map (field ''rank'') board = map (\<lambda>i. Some (JNum (int i))) [1..<length us + 1] \<and>
          map (field ''totalPoints'') board = map (\<lambda>p. Some (JNum p)) (rev (sort (map totalPoints us)))
      | _ \<Rightarrow> False)"

section \<open>A sample environment\<close>

text \<open>
  An environment in which every storage call is answered, the strings of 24 lower-case
  hexadecimal digits cast to identifiers, and \<^verbatim>\<open>Math.random()\<close> returns 0.5; and a state
  with two users and two connected clients.
\<close>

definition hex24_cast :: "string \<Rightarrow> objid option" where
  "hex24_cast x =
     (if length x = 24 \<and> (\<forall>c \<in> set x. c \<in> set ''0123456789abcdef'') then Some x else None)"

definition sample_oid :: "nat \<Rightarrow> objid" where
  "sample_oid n =
     ''6f0000000000000000000a'' @
       [''0123456789abcdef'' ! (n div 16 mod 16), ''0123456789abcdef'' ! (n mod 16)]"

definition sample_env :: env where
  "sample_env =
     \<lparr>available = (\<lambda>c. True), castObjectId = hex24_cast,
      newObjectId = sample_oid, Math_random = (1, 1)\<rparr>"

definition sample_state :: state where
  "sample_state =
     \<lparr>users = [\<lparr>user_id = ''5e00000000000000000000a1'', name = ''Asha'', totalPoints = 3\<rparr>,
               \<lparr>user_id = ''5e00000000000000000000a2'', name = ''Ravi'', totalPoints = 7\<rparr>],
      claims = [],
      clients = [(''s1'', []), (''s2'', [])],
      calls = []\<rparr>"

section \<open>Evaluation\<close>

declare bitlen.simps [simp del]
declare digits.simps [simp del]

lemmas storage_defs =
  User_findById_def User_find_def User_find_sorted_def save_user_def save_new_user_def
  save_history_def User_countDocuments_def User_insertMany_def record_call_def
  getLeaderboard_def leaderboard_entry_def io_emit_def socket_emit_def duplicate_key_def
  new_User_def

lemmas sample_defs = sample_env_def sample_state_def hex24_cast_def sample_oid_def

lemmas handler_defs =
  post_claim_def post_users_def get_users_def on_connection_def seedDatabase_def
  claim_response_def users_error_def message_def randomPoints_def round53_def js_add_def
  is_unit_double_def show_int_def digits.simps keys_def field_def ranked_descending_def
  initialUsers_def Let_def

section \<open>The award is between 1 and 10\<close>

lemma bitlen_le: "n < 2 ^ k \<Longrightarrow> bitlen n \<le> k"
proof (induction k arbitrary: n)
  case 0
  then show ?case by (simp add: bitlen.simps)
next
  case (Suc k)
  show ?case
  proof (cases "n = 0")
    case True
    then show ?thesis by (simp add: bitlen.simps)
  next
    case False
    from Suc.prems have "n div 2 < 2 ^ k" by simp
    then have "bitlen (n div 2) \<le> k" by (rule Suc.IH)
    with False show ?thesis by (subst bitlen.simps) simp
  qed
qed

lemma bitlen_gt: "2 ^ k \<le> n \<Longrightarrow> k < bitlen n"
proof (induction k arbitrary: n)
  case 0
  then show ?case by (subst bitlen.simps) simp
next
  case (Suc k)
  then have "2 ^ k \<le> n div 2" by simp
  then have "k < bitlen (n div 2)" by (rule Suc.IH)
  moreover have "0 < (2::nat) ^ Suc k" by simp
  with Suc.prems have "n \<noteq> 0" by linarith
  ultimately show ?case by (subst bitlen.simps) simp
qed

lemma round_up_le:
  fixes n s :: nat
  assumes "0 < s" "2 ^ (s - 1) \<le> n mod 2 ^ s"
  shows "(n div 2 ^ s + 1) * 2 ^ s \<le> n + 2 ^ (s - 1)"
proof -
  have two: "(2::nat) ^ s = 2 ^ (s - 1) + 2 ^ (s - 1)"
    using assms(1) by (cases s) simp_all
  have "n div 2 ^ s * 2 ^ s + n mod 2 ^ s = n" by (rule div_mult_mod_eq)
  then have "(n div 2 ^ s + 1) * 2 ^ s + n mod 2 ^ s = n + 2 ^ s"
    by (simp add: algebra_simps)
  with assms(2) two show ?thesis by linarith
qed

lemma round53_le:
  assumes "n < 2 ^ 57"
  shows "round53 n \<le> n + 8"
proof (cases "n < 2 ^ 53")
  case True
  then show ?thesis by (simp add: round53_def)
next
  case False
  define s where "s = bitlen n - 53"
  from False have "53 < bitlen n" by (intro bitlen_gt) simp
  moreover from assms have "bitlen n \<le> 57" by (rule bitlen_le)
  ultimately have s: "0 < s" "s - 1 \<le> 3" by (simp_all add: s_def)
  have "(2::nat) ^ (s - 1) \<le> 2 ^ 3" using s(2) by (intro power_increasing) simp_all
  then have h: "(2::nat) ^ (s - 1) \<le> 8" by simp
  have "n div 2 ^ s * 2 ^ s \<le> n" by simp
  then have down: "n div 2 ^ s * 2 ^ s \<le> n + 8" by linarith
  have up: "2 ^ (s - 1) \<le> n mod 2 ^ s \<Longrightarrow> (n div 2 ^ s + 1) * 2 ^ s \<le> n + 8"
    using round_up_le [OF s(1), of n] h by linarith
  have "round53 n =
      (if 2 ^ (s - 1) < n mod 2 ^ s \<or> (n mod 2 ^ s = 2 ^ (s - 1) \<and> odd (n div 2 ^ s))
       then n div 2 ^ s + 1 else n div 2 ^ s) * 2 ^ s"
    using False by (simp add: round53_def Let_def s_def)
  also have "\<dots> \<le> n + 8"
    using down up by (simp del: One_nat_def)
  finally show ?thesis .
qed

lemma randomPoints_range:
  assumes "is_unit_double d"
  shows "1 \<le> randomPoints d \<and> randomPoints d \<le> 10"
proof -
  obtain m e where d: "d = (m, e)" by (cases d)
  from assms d have m: "m < 2 ^ 53" "m < 2 ^ e" by (simp_all add: is_unit_double_def)
  from m(1) have "m * 10 < 2 ^ 57" by simp
  then have "round53 (m * 10) \<le> m * 10 + 8" by (rule round53_le)
  also from m(2) have "m * 10 + 8 < 10 * 2 ^ e" by simp
  finally have "round53 (m * 10) div 2 ^ e < 10"
    by (simp add: less_mult_imp_div_less)
  then show ?thesis by (simp add: d randomPoints_def)
qed

lemma round53_exact: "n \<le> 2 ^ 53 \<Longrightarrow> round53 n = n"
proof (cases "n < 2 ^ 53")
  case True
  then show ?thesis by (simp add: round53_def)
next
  case False
  moreover assume "n \<le> 2 ^ 53"
  ultimately have "n = 2 ^ 53" by simp
  then show ?thesis by (simp add: round53_def bitlen.simps Let_def)
qed

lemma js_add_exact:
  assumes "\<bar>a\<bar> \<le> 2 ^ 53 - 10" and "1 \<le> b" and "b \<le> 10"
  shows "js_add a b = a + b"
proof (cases "a + b < 0")
  case True
  with assms have "nat (- (a + b)) \<le> 2 ^ 53" by simp
  then have "round53 (nat (- (a + b))) = nat (- (a + b))" by (rule round53_exact)
  with True show ?thesis by (simp add: js_add_def)
next
  case False
  with assms have "nat (a + b) \<le> 2 ^ 53" by simp
  then have "round53 (nat (a + b)) = nat (a + b)" by (rule round53_exact)
  with False show ?thesis by (simp add: js_add_def)
qed

lemma bitlen_eq: "2 ^ k \<le> n \<Longrightarrow> n < 2 ^ Suc k \<Longrightarrow> bitlen n = Suc k"
  using bitlen_le [of n "Suc k"] bitlen_gt [of k n] by simp

text \<open>The double nearest to 0.4 is \<open>7205759403792794 / 2 ^ 54\<close>; it awards 5.\<close>

lemma random_0_4_awards_5: "randomPoints (7205759403792794, 54) = 5"
proof -
  have "bitlen 72057594037927940 = 57"
    using bitlen_eq [of 56 72057594037927940] by simp
  then show ?thesis by (simp add: randomPoints_def round53_def)
qed


lemma add_5_at_2_53: "js_add 9007199254740992 5 = 9007199254740996"
proof -
  have "bitlen 9007199254740997 = 54"
    using bitlen_eq [of 53 9007199254740997] by simp
  then show ?thesis by (simp add: js_add_def round53_def)
qed


section \<open>What each storage call leaves behind\<close>

lemma find_holds: "find P xs = Some x \<Longrightarrow> P x"
  by (induction xs) (auto split: if_splits)

lemma find_set_totalPoints:
  "find (\<lambda>u. user_id u = oid) us = Some u \<Longrightarrow>
   find (\<lambda>u. user_id u = oid) (set_totalPoints oid p us) = Some (u\<lparr>totalPoints := p\<rparr>)"
  by (induction us) (auto split: if_splits)

lemma User_findById_Some:
  assumes "User_findById ev uid s = (Inr (Some u), s1)"
  shows "\<exists>oid. castObjectId ev uid = Some oid \<and> available ev FindById
           \<and> find (\<lambda>u. user_id u = oid) (users s) = Some u \<and> s1 = record_call FindById s"
  using assms by (auto simp: User_findById_def split: option.splits if_splits)

lemma save_user_ok:
  assumes "save_user ev doc s = (Inr x, s1)"
  shows "available ev SaveUser \<and>
         s1 = record_call SaveUser s\<lparr>users := set_totalPoints (user_id doc) (totalPoints doc) (users s)\<rparr>"
  using assms by (auto simp: save_user_def Let_def split: if_splits)

lemma save_history_ok:
  assumes "save_history ev h s = (Inr x, s1)"
  shows "available ev SaveHistory \<and> s1 = record_call SaveHistory s\<lparr>claims := claims s @ [h]\<rparr>"
  using assms by (auto simp: save_history_def Let_def split: if_splits)

lemma getLeaderboard_ok:
  assumes "getLeaderboard ev s = (Inr board, s1)"
  shows "available ev FindSorted \<and> s1 = record_call FindSorted s \<and>
         board = map leaderboard_entry (enumerate 0 (sort_key (\<lambda>u. - totalPoints u) (users s)))"
  using assms by (auto simp: getLeaderboard_def User_find_sorted_def split: if_splits)

lemma users_record_call [simp]: "users (record_call c s) = users s"
  by (simp add: record_call_def)

lemma claims_record_call [simp]: "claims (record_call c s) = claims s"
  by (simp add: record_call_def)

lemma clients_record_call [simp]: "clients (record_call c s) = clients s"
  by (simp add: record_call_def)

lemma calls_record_call [simp]: "calls (record_call c s) = calls s @ [c]"
  by (simp add: record_call_def)

lemma users_io_emit [simp]: "users (io_emit p s) = users s"
  by (simp add: io_emit_def)

lemma claims_io_emit [simp]: "claims (io_emit p s) = claims s"
  by (simp add: io_emit_def)

lemma calls_io_emit [simp]: "calls (io_emit p s) = calls s"
  by (simp add: io_emit_def)

lemma status_message [simp]: "status (message code msg) = code"
  by (simp add: message_def)

section \<open>A successful claim\<close>

lemma post_claim_success:
  assumes "post_claim ev userId s = (res, s')" and "status res = 200"
  shows "\<exists>uid oid u s1 s2 s3 s4 board.
           userId = Some uid \<and> castObjectId ev uid = Some oid \<and>
           find (\<lambda>u. user_id u = oid) (users s) = Some u \<and>
           User_findById ev uid s = (Inr (Some u), s1) \<and>
           save_user ev (u\<lparr>totalPoints := js_add (totalPoints u) (randomPoints (Math_random ev))\<rparr>) s1 = (Inr (), s2) \<and>
           save_history ev \<lparr>history_userId = user_id u, pointsClaimed = randomPoints (Math_random ev)\<rparr> s2 = (Inr (), s3) \<and>
           getLeaderboard ev s3 = (Inr board, s4) \<and>
           res = claim_response (randomPoints (Math_random ev)) (u\<lparr>totalPoints := js_add (totalPoints u) (randomPoints (Math_random ev))\<rparr>) \<and>
           s' = io_emit (JArr board) s4"
  using assms
  by (auto simp: post_claim_def Let_def split: option.splits if_splits prod.splits sum.splits
      dest: User_findById_Some)

text \<open>
  C1, as the source has it. Every successful POST /api/claim finds an existing user, awards
  an integer between 1 and 10 inclusive, leaves that user stored with the sum of
  \<open>totalPoints\<close> and the award as doubles add them, and answers with the award as
  \<open>pointsAwarded\<close> and the updated user document. When \<open>totalPoints\<close> is at most
  \<open>2 ^ 53 - 10\<close> in magnitude before the call, that sum is \<open>totalPoints\<close> plus exactly the
  award.
\<close>

theorem claim_awards_points:
  assumes "is_unit_double (Math_random ev)"
    and "post_claim ev userId s = (res, s')"
    and "status res = 200"
  shows "\<exists>uid oid u award.
           userId = Some uid \<and> castObjectId ev uid = Some oid \<and>
           find (\<lambda>u. user_id u = oid) (users s) = Some u \<and>
           1 \<le> award \<and> award \<le> 10 \<and>
           find (\<lambda>u. user_id u = oid) (users s')
             = Some (u\<lparr>totalPoints := js_add (totalPoints u) award\<rparr>) \<and>
           field ''pointsAwarded'' (body res) = Some (JNum award) \<and>
           field ''user'' (body res) = Some (JDoc (u\<lparr>totalPoints := js_add (totalPoints u) award\<rparr>)) \<and>
           (\<bar>totalPoints u\<bar> \<le> 2 ^ 53 - 10 \<longrightarrow> js_add (totalPoints u) award = totalPoints u + award)"
proof -
  let ?a = "randomPoints (Math_random ev)"
  from post_claim_success [OF assms(2,3)] obtain uid oid u s1 s2 s3 s4 board where
    uid: "userId = Some uid" "castObjectId ev uid = Some oid"
    and u: "find (\<lambda>u. user_id u = oid) (users s) = Some u"
    and s1: "User_findById ev uid s = (Inr (Some u), s1)"
    and s2: "save_user ev (u\<lparr>totalPoints := js_add (totalPoints u) ?a\<rparr>) s1 = (Inr (), s2)"
    and s3: "save_history ev \<lparr>history_userId = user_id u, pointsClaimed = ?a\<rparr> s2 = (Inr (), s3)"
    and s4: "getLeaderboard ev s3 = (Inr board, s4)"
    and res: "res = claim_response ?a (u\<lparr>totalPoints := js_add (totalPoints u) ?a\<rparr>)"
    and s': "s' = io_emit (JArr board) s4"
    by blast
  from u have oid: "user_id u = oid" by (rule find_holds)
  from User_findById_Some [OF s1] have "users s1 = users s" by auto
  moreover from save_user_ok [OF s2] oid
  have "users s2 = set_totalPoints oid (js_add (totalPoints u) ?a) (users s1)" by simp
  moreover from save_history_ok [OF s3] have "users s3 = users s2" by simp
  moreover from getLeaderboard_ok [OF s4] have "users s4 = users s3" by simp
  ultimately have "users s' = set_totalPoints oid (js_add (totalPoints u) ?a) (users s)"
    by (simp add: s')
  with u have after: "find (\<lambda>u. user_id u = oid) (users s')
      = Some (u\<lparr>totalPoints := js_add (totalPoints u) ?a\<rparr>)"
    by (simp add: find_set_totalPoints)
  from assms(1) have range: "1 \<le> ?a \<and> ?a \<le> 10" by (rule randomPoints_range)
  then have exact: "\<bar>totalPoints u\<bar> \<le> 2 ^ 53 - 10 \<longrightarrow> js_add (totalPoints u) ?a = totalPoints u + ?a"
    by (simp add: js_add_exact)
  have "field ''pointsAwarded'' (body res) = Some (JNum ?a)"
    and "field ''user'' (body res) = Some (JDoc (u\<lparr>totalPoints := js_add (totalPoints u) ?a\<rparr>))"
    by (simp_all add: res claim_response_def field_def)
  with uid u after range exact show ?thesis by blast
qed

theorem claim_awards_points_witness:
  "is_unit_double (Math_random sample_env) \<and>
   status (fst (post_claim sample_env (Some ''5e00000000000000000000a1'') sample_state)) = 200 \<and>
   find (\<lambda>u. user_id u = ''5e00000000000000000000a1'') (users sample_state)
     = Some \<lparr>user_id = ''5e00000000000000000000a1'', name = ''Asha'', totalPoints = 3\<rparr> \<and>
   \<bar>3 :: int\<bar> \<le> 2 ^ 53 - 10 \<and>
   find (\<lambda>u. user_id u = ''5e00000000000000000000a1'')
     (users (snd (post_claim sample_env (Some ''5e00000000000000000000a1'') sample_state)))
     = Some \<lparr>user_id = ''5e00000000000000000000a1'', name = ''Asha'', totalPoints = 9\<rparr> \<and>
   body (fst (post_claim sample_env (Some ''5e00000000000000000000a1'') sample_state))
     = JObj [(''message'', JStr ''Awarded 6 points to Asha''),
             (''pointsAwarded'', JNum 6),
             (''user'', JDoc \<lparr>user_id = ''5e00000000000000000000a1'', name = ''Asha'', totalPoints = 9\<rparr>)]"
  using claim_awards_points [of sample_env "Some ''5e00000000000000000000a1''" sample_state
      "fst (post_claim sample_env (Some ''5e00000000000000000000a1'') sample_state)"
      "snd (post_claim sample_env (Some ''5e00000000000000000000a1'') sample_state)"]
  by (simp add: handler_defs storage_defs sample_defs)

text \<open>
  Beyond \<open>2 ^ 53\<close> the sum is rounded. With Asha at 9007199254740992 points and
  \<^verbatim>\<open>Math.random()\<close> returning the double nearest to 0.4, the claim succeeds and awards 5,
  and Asha is stored and returned with 9007199254740996 points, not 9007199254740997.
\<close>

theorem claim_awards_points_counterexample:
  "is_unit_double (7205759403792794, 54) \<and>
   status (fst (post_claim (sample_env\<lparr>Math_random := (7205759403792794, 54)\<rparr>) (Some ''5e00000000000000000000a1'')
     (sample_state\<lparr>users := [\<lparr>user_id = ''5e00000000000000000000a1'', name = ''Asha'', totalPoints = 9007199254740992\<rparr>]\<rparr>)))
     = 200 \<and>
   body (fst (post_claim (sample_env\<lparr>Math_random := (7205759403792794, 54)\<rparr>) (Some ''5e00000000000000000000a1'')
     (sample_state\<lparr>users := [\<lparr>user_id = ''5e00000000000000000000a1'', name = ''Asha'', totalPoints = 9007199254740992\<rparr>]\<rparr>)))
     = JObj [(''message'', JStr ''Awarded 5 points to Asha''),
             (''pointsAwarded'', JNum 5),
             (''user'', JDoc \<lparr>user_id = ''5e00000000000000000000a1'', name = ''Asha'', totalPoints = 9007199254740996\<rparr>)] \<and>
   users (snd (post_claim (sample_env\<lparr>Math_random := (7205759403792794, 54)\<rparr>) (Some ''5e00000000000000000000a1'')
     (sample_state\<lparr>users := [\<lparr>user_id = ''5e00000000000000000000a1'', name = ''Asha'', totalPoints = 9007199254740992\<rparr>]\<rparr>)))
     = [\<lparr>user_id = ''5e00000000000000000000a1'', name = ''Asha'', totalPoints = 9007199254740996\<rparr>] \<and>
   (9007199254740996 :: int) \<noteq> 9007199254740992 + 5"
  by (simp add: post_claim_def claim_response_def message_def show_int_def digits.simps
      is_unit_double_def Let_def storage_defs sample_defs random_0_4_awards_5 add_5_at_2_53)

section \<open>The leaderboard is ranked\<close>

lemma points_sorted_desc:
  "map totalPoints (sort_key (\<lambda>u. - totalPoints u) us) = rev (sort (map totalPoints us))"
proof -
  let ?L = "map totalPoints (sort_key (\<lambda>u. - totalPoints u) us)"
  have "sorted (map (\<lambda>u. - totalPoints u) (sort_key (\<lambda>u. - totalPoints u) us))"
    by (rule sorted_sort_key)
  then have "sorted_wrt (\<lambda>a b. b \<le> a) ?L"
    by (simp add: sorted_wrt_map)
  then have "sorted (rev ?L)"
    by (simp add: sorted_wrt_rev)
  moreover have "mset (rev ?L) = mset (map totalPoints us)"
    by simp
  ultimately have "sort (map totalPoints us) = rev ?L"
    by (intro properties_for_sort) simp_all
  then show ?thesis by simp
qed

lemma map_enumerate_fst:
  "map (\<lambda>p. g (fst p)) (enumerate n xs) = map g [n..<n + length xs]"
proof -
  have "map (\<lambda>p. g (fst p)) (enumerate n xs) = map g (map fst (enumerate n xs))"
    by (simp only: map_map comp_def)
  then show ?thesis by (simp only: map_fst_enumerate)
qed

lemma map_enumerate_snd: "map (\<lambda>p. g (snd p)) (enumerate n xs) = map g xs"
proof -
  have "map (\<lambda>p. g (snd p)) (enumerate n xs) = map g (map snd (enumerate n xs))"
    by (simp only: map_map comp_def)
  then show ?thesis by (simp only: map_snd_enumerate)
qed

lemma rank_column:
  "map (field ''rank'') (map leaderboard_entry (enumerate 0 xs))
     = map (\<lambda>i. Some (JNum (int i))) [1..<length xs + 1]"
proof -
  have "map (field ''rank'') (map leaderboard_entry (enumerate 0 xs))
          = map (\<lambda>p. Some (JNum (int (Suc (fst p))))) (enumerate 0 xs)"
    by (simp add: leaderboard_entry_def field_def split_def add.commute)
  also have "\<dots> = map (\<lambda>i. Some (JNum (int (Suc i)))) [0..<0 + length xs]"
    by (rule map_enumerate_fst)
  also have "\<dots> = map (\<lambda>i. Some (JNum (int i))) (map Suc [0..<length xs])"
    by (simp only: map_map comp_def add_0)
  also have "map Suc [0..<length xs] = [Suc 0..<Suc (length xs)]"
    by (rule map_Suc_upt)
  also have "[Suc 0..<Suc (length xs)] = [1..<length xs + 1]"
    by (simp only: One_nat_def [symmetric] Suc_eq_plus1 add_0)
  finally show ?thesis .
qed

lemma points_column:
  "map (field ''totalPoints'') (map leaderboard_entry (enumerate 0 xs))
     = map (\<lambda>p. Some (JNum p)) (map totalPoints xs)"
proof -
  have "map (field ''totalPoints'') (map leaderboard_entry (enumerate 0 xs))
          = map (\<lambda>p. Some (JNum (totalPoints (snd p)))) (enumerate 0 xs)"
    by (simp add: leaderboard_entry_def field_def split_def)
  also have "\<dots> = map (\<lambda>u. Some (JNum (totalPoints u))) xs"
    by (rule map_enumerate_snd)
  finally show ?thesis by (simp add: comp_def)
qed

lemma getLeaderboard_ranked:
  assumes "getLeaderboard ev s = (Inr board, s1)"
  shows "ranked_descending (users s) (JArr board)"
proof -
  let ?sorted = "sort_key (\<lambda>u. - totalPoints u) (users s)"
  from getLeaderboard_ok [OF assms]
  have board: "board = map leaderboard_entry (enumerate 0 ?sorted)" by simp
  have "map (field ''rank'') board = map (\<lambda>i. Some (JNum (int i))) [1..<length (users s) + 1]"
    using rank_column [of ?sorted] by (simp only: board length_sort)
  moreover
  have "map (field ''totalPoints'') board
          = map (\<lambda>p. Some (JNum p)) (rev (sort (map totalPoints (users s))))"
    using points_column [of ?sorted] by (simp only: board points_sorted_desc)
  ultimately show ?thesis
    by (simp only: ranked_descending_def json.case)
qed

lemma save_new_user_ok:
  assumes "save_new_user ev doc s = (Inr x, s1)"
  shows "available ev SaveNewUser \<and> \<not> duplicate_key doc (users s) \<and>
         s1 = record_call SaveNewUser s\<lparr>users := users s @ [doc]\<rparr>"
  using assms by (auto simp: save_new_user_def Let_def split: if_splits)

lemma post_users_created:
  assumes "post_users ev nm s = (res, s')" and "status res = 201"
  shows "\<exists>n s1 s2 board.
           nm = Some n \<and> n \<noteq> [] \<and>
           save_new_user ev (new_User (newObjectId ev 0) n) s = (Inr (), s1) \<and>
           getLeaderboard ev s1 = (Inr board, s2) \<and>
           res = \<lparr>status = 201, body = JDoc (new_User (newObjectId ev 0) n)\<rparr> \<and>
           s' = io_emit (JArr board) s2"
  using assms
  by (auto simp: post_users_def Let_def users_error_def
      split: option.splits if_splits prod.splits sum.splits)

lemma broadcast_ranked:
  assumes "getLeaderboard ev s = (Inr board, s1)"
  shows "ranked_descending (users (io_emit (JArr board) s1)) (JArr board) \<and>
         clients (io_emit (JArr board) s1) = map (\<lambda>(sid, inbox). (sid, inbox @ [JArr board])) (clients s)"
  using getLeaderboard_ranked [OF assms] getLeaderboard_ok [OF assms]
  by (simp add: io_emit_def)

text \<open>
  C2. Whatever the user collection holds, the leaderboard that \<open>getLeaderboard\<close> returns is
  ranked: its entries carry the ranks 1 to N in this order, N the number of users, and their
  scores run from the highest to the lowest. A successful registration and a successful
  claim each send one such payload, ranked for the collection they leave, to every
  connected client.
\<close>

theorem leaderboard_ranked:
  "(getLeaderboard ev s = (Inr board, s1) \<longrightarrow> ranked_descending (users s) (JArr board)) \<and>
   (post_users ev nm s = (res, s') \<and> status res = 201 \<longrightarrow>
      (\<exists>payload. ranked_descending (users s') payload \<and>
         clients s' = map (\<lambda>(sid, inbox). (sid, inbox @ [payload])) (clients s))) \<and>
   (post_claim ev userId s = (res2, s2) \<and> status res2 = 200 \<longrightarrow>
      (\<exists>payload. ranked_descending (users s2) payload \<and>
         clients s2 = map (\<lambda>(sid, inbox). (sid, inbox @ [payload])) (clients s)))"
proof (intro conjI impI)
  assume "getLeaderboard ev s = (Inr board, s1)"
  then show "ranked_descending (users s) (JArr board)" by (rule getLeaderboard_ranked)
next
  assume "post_users ev nm s = (res, s') \<and> status res = 201"
  then obtain n t1 t2 b where
    t1: "save_new_user ev (new_User (newObjectId ev 0) n) s = (Inr (), t1)"
    and t2: "getLeaderboard ev t1 = (Inr b, t2)" and s': "s' = io_emit (JArr b) t2"
    using post_users_created by blast
  from save_new_user_ok [OF t1] have "clients t1 = clients s" by simp
  with broadcast_ranked [OF t2] s'
  show "\<exists>payload. ranked_descending (users s') payload \<and>
         clients s' = map (\<lambda>(sid, inbox). (sid, inbox @ [payload])) (clients s)"
    by auto
next
  assume "post_claim ev userId s = (res2, s2) \<and> status res2 = 200"
  then obtain uid u t1 t2 t3 t4 b where
    t1: "User_findById ev uid s = (Inr (Some u), t1)"
    and t2: "save_user ev (u\<lparr>totalPoints := js_add (totalPoints u) (randomPoints (Math_random ev))\<rparr>) t1 = (Inr (), t2)"
    and t3: "save_history ev \<lparr>history_userId = user_id u, pointsClaimed = randomPoints (Math_random ev)\<rparr> t2 = (Inr (), t3)"
    and t4: "getLeaderboard ev t3 = (Inr b, t4)" and s2: "s2 = io_emit (JArr b) t4"
    using post_claim_success by blast
  from User_findById_Some [OF t1] have "clients t1 = clients s" by auto
  moreover from save_user_ok [OF t2] have "clients t2 = clients t1" by simp
  moreover from save_history_ok [OF t3] have "clients t3 = clients t2" by simp
  ultimately have "clients t3 = clients s" by simp
  with broadcast_ranked [OF t4] s2
  show "\<exists>payload. ranked_descending (users s2) payload \<and>
         clients s2 = map (\<lambda>(sid, inbox). (sid, inbox @ [payload])) (clients s)"
    by auto
qed

theorem leaderboard_ranked_witness:
  "fst (getLeaderboard sample_env sample_state) = Inr
     [JObj [(''rank'', JNum 1), (''name'', JStr ''Ravi''), (''totalPoints'', JNum 7), (''_id'', JStr ''5e00000000000000000000a2'')],
      JObj [(''rank'', JNum 2), (''name'', JStr ''Asha''), (''totalPoints'', JNum 3), (''_id'', JStr ''5e00000000000000000000a1'')]] \<and>
   ranked_descending (users sample_state) (JArr
     [JObj [(''rank'', JNum 1), (''name'', JStr ''Ravi''), (''totalPoints'', JNum 7), (''_id'', JStr ''5e00000000000000000000a2'')],
      JObj [(''rank'', JNum 2), (''name'', JStr ''Asha''), (''totalPoints'', JNum 3), (''_id'', JStr ''5e00000000000000000000a1'')]]) \<and>
   status (fst (post_users sample_env (Some ''Mina'') sample_state)) = 201 \<and>
   clients (snd (post_users sample_env (Some ''Mina'') sample_state)) =
     [(''s1'', [JArr
     [JObj [(''rank'', JNum 1), (''name'', JStr ''Ravi''), (''totalPoints'', JNum 7), (''_id'', JStr ''5e00000000000000000000a2'')],
      JObj [(''rank'', JNum 2), (''name'', JStr ''Asha''), (''totalPoints'', JNum 3), (''_id'', JStr ''5e00000000000000000000a1'')],
      JObj [(''rank'', JNum 3), (''name'', JStr ''Mina''), (''totalPoints'', JNum 0), (''_id'', JStr ''6f0000000000000000000a00'')]]]),
      (''s2'', [JArr
     [JObj [(''rank'', JNum 1), (''name'', JStr ''Ravi''), (''totalPoints'', JNum 7), (''_id'', JStr ''5e00000000000000000000a2'')],
      JObj [(''rank'', JNum 2), (''name'', JStr ''Asha''), (''totalPoints'', JNum 3), (''_id'', JStr ''5e00000000000000000000a1'')],
      JObj [(''rank'', JNum 3), (''name'', JStr ''Mina''), (''totalPoints'', JNum 0), (''_id'', JStr ''6f0000000000000000000a00'')]]])] \<and>
   ranked_descending (users (snd (post_users sample_env (Some ''Mina'') sample_state))) (JArr
     [JObj [(''rank'', JNum 1), (''name'', JStr ''Ravi''), (''totalPoints'', JNum 7), (''_id'', JStr ''5e00000000000000000000a2'')],
      JObj [(''rank'', JNum 2), (''name'', JStr ''Asha''), (''totalPoints'', JNum 3), (''_id'', JStr ''5e00000000000000000000a1'')],
      JObj [(''rank'', JNum 3), (''name'', JStr ''Mina''), (''totalPoints'', JNum 0), (''_id'', JStr ''6f0000000000000000000a00'')]]) \<and>
   status (fst (post_claim sample_env (Some ''5e00000000000000000000a1'') sample_state)) = 200 \<and>
   clients (snd (post_claim sample_env (Some ''5e00000000000000000000a1'') sample_state)) =
     [(''s1'', [JArr
     [JObj [(''rank'', JNum 1), (''name'', JStr ''Asha''), (''totalPoints'', JNum 9), (''_id'', JStr ''5e00000000000000000000a1'')],
      JObj [(''rank'', JNum 2), (''name'', JStr ''Ravi''), (''totalPoints'', JNum 7), (''_id'', JStr ''5e00000000000000000000a2'')]]]),
      (''s2'', [JArr
     [JObj [(''rank'', JNum 1), (''name'', JStr ''Asha''), (''totalPoints'', JNum 9), (''_id'', JStr ''5e00000000000000000000a1'')],
      JObj [(''rank'', JNum 2), (''name'', JStr ''Ravi''), (''totalPoints'', JNum 7), (''_id'', JStr ''5e00000000000000000000a2'')]]])] \<and>
   ranked_descending (users (snd (post_claim sample_env (Some ''5e00000000000000000000a1'') sample_state))) (JArr
     [JObj [(''rank'', JNum 1), (''name'', JStr ''Asha''), (''totalPoints'', JNum 9), (''_id'', JStr ''5e00000000000000000000a1'')],
      JObj [(''rank'', JNum 2), (''name'', JStr ''Ravi''), (''totalPoints'', JNum 7), (''_id'', JStr ''5e00000000000000000000a2'')]])"
  using leaderboard_ranked [of sample_env sample_state
      "[JObj [(''rank'', JNum 1), (''name'', JStr ''Ravi''), (''totalPoints'', JNum 7), (''_id'', JStr ''5e00000000000000000000a2'')],
      JObj [(''rank'', JNum 2), (''name'', JStr ''Asha''), (''totalPoints'', JNum 3), (''_id'', JStr ''5e00000000000000000000a1'')]]"
      "snd (getLeaderboard sample_env sample_state)"
      "Some ''Mina''"
      "fst (post_users sample_env (Some ''Mina'') sample_state)"
      "snd (post_users sample_env (Some ''Mina'') sample_state)"
      "Some ''5e00000000000000000000a1''"
      "fst (post_claim sample_env (Some ''5e00000000000000000000a1'') sample_state)"
      "snd (post_claim sample_env (Some ''5e00000000000000000000a1'') sample_state)"]
  by (simp add: handler_defs storage_defs sample_defs)

section \<open>The fields of a leaderboard entry\<close>

lemma entry_of_user:
  assumes "e \<in> set (map leaderboard_entry (enumerate n us))"
  shows "\<exists>i u. u \<in> set us \<and> e = leaderboard_entry (i, u)"
proof -
  from assms obtain p where p: "p \<in> set (enumerate n us)" and e: "e = leaderboard_entry p"
    by auto
  from p have "snd p \<in> set (map snd (enumerate n us))" by (simp only: set_map) (rule imageI)
  then have "snd p \<in> set us" by (simp only: map_snd_enumerate)
  with e show ?thesis by (cases p) auto
qed

text \<open>
  C3, as the source has it. Every entry of the leaderboard is an object with exactly the
  keys \<open>rank\<close>, \<open>name\<close>, \<open>totalPoints\<close> and \<open>_id\<close>, in this order; the rank is a number, and
  the other three are the name, the score and the identifier of one stored user.
\<close>

theorem leaderboard_entry_fields:
  assumes "getLeaderboard ev s = (Inr board, s1)"
  shows "\<forall>e \<in> set board.
           keys e = [''rank'', ''name'', ''totalPoints'', ''_id''] \<and>
           (\<exists>r. field ''rank'' e = Some (JNum r)) \<and>
           (\<exists>u \<in> set (users s).
              field ''name'' e = Some (JStr (name u)) \<and>
              field ''totalPoints'' e = Some (JNum (totalPoints u)) \<and>
              field ''_id'' e = Some (JStr (user_id u)))"
proof
  fix e assume "e \<in> set board"
  with getLeaderboard_ok [OF assms]
  have "e \<in> set (map leaderboard_entry (enumerate 0 (sort_key (\<lambda>u. - totalPoints u) (users s))))"
    by simp
  then obtain i u where u: "u \<in> set (sort_key (\<lambda>u. - totalPoints u) (users s))"
    and e: "e = leaderboard_entry (i, u)"
    using entry_of_user by blast
  from u have "u \<in> set (users s)" by simp
  then show "keys e = [''rank'', ''name'', ''totalPoints'', ''_id''] \<and>
           (\<exists>r. field ''rank'' e = Some (JNum r)) \<and>
           (\<exists>u \<in> set (users s).
              field ''name'' e = Some (JStr (name u)) \<and>
              field ''totalPoints'' e = Some (JNum (totalPoints u)) \<and>
              field ''_id'' e = Some (JStr (user_id u)))"
    by (auto simp: e leaderboard_entry_def keys_def field_def)
qed

theorem leaderboard_entry_fields_witness:
  "fst (getLeaderboard sample_env sample_state) = Inr
     [JObj [(''rank'', JNum 1), (''name'', JStr ''Ravi''), (''totalPoints'', JNum 7), (''_id'', JStr ''5e00000000000000000000a2'')],
      JObj [(''rank'', JNum 2), (''name'', JStr ''Asha''), (''totalPoints'', JNum 3), (''_id'', JStr ''5e00000000000000000000a1'')]] \<and>
   map keys
     [JObj [(''rank'', JNum 1), (''name'', JStr ''Ravi''), (''totalPoints'', JNum 7), (''_id'', JStr ''5e00000000000000000000a2'')],
      JObj [(''rank'', JNum 2), (''name'', JStr ''Asha''), (''totalPoints'', JNum 3), (''_id'', JStr ''5e00000000000000000000a1'')]] = [[''rank'', ''name'', ''totalPoints'', ''_id''], [''rank'', ''name'', ''totalPoints'', ''_id'']] \<and>
   map (field ''_id'')
     [JObj [(''rank'', JNum 1), (''name'', JStr ''Ravi''), (''totalPoints'', JNum 7), (''_id'', JStr ''5e00000000000000000000a2'')],
      JObj [(''rank'', JNum 2), (''name'', JStr ''Asha''), (''totalPoints'', JNum 3), (''_id'', JStr ''5e00000000000000000000a1'')]] = [Some (JStr ''5e00000000000000000000a2''), Some (JStr ''5e00000000000000000000a1'')] \<and>
   map user_id (users sample_state) = [''5e00000000000000000000a1'', ''5e00000000000000000000a2'']"
  using leaderboard_entry_fields [of sample_env sample_state
      "[JObj [(''rank'', JNum 1), (''name'', JStr ''Ravi''), (''totalPoints'', JNum 7), (''_id'', JStr ''5e00000000000000000000a2'')],
      JObj [(''rank'', JNum 2), (''name'', JStr ''Asha''), (''totalPoints'', JNum 3), (''_id'', JStr ''5e00000000000000000000a1'')]]"
      "snd (getLeaderboard sample_env sample_state)"]
  by (simp add: storage_defs sample_defs keys_def field_def)

text \<open>
  The identifier travels under the key \<open>_id\<close>: no entry has a key \<open>id\<close>. With the two sample
  users the first entry is Ravi's, and its keys are not \<open>rank\<close>, \<open>name\<close>, \<open>totalPoints\<close>,
  \<open>id\<close>.
\<close>

theorem leaderboard_entry_fields_counterexample:
  "fst (getLeaderboard sample_env sample_state) = Inr
     [JObj [(''rank'', JNum 1), (''name'', JStr ''Ravi''), (''totalPoints'', JNum 7), (''_id'', JStr ''5e00000000000000000000a2'')],
      JObj [(''rank'', JNum 2), (''name'', JStr ''Asha''), (''totalPoints'', JNum 3), (''_id'', JStr ''5e00000000000000000000a1'')]] \<and>
   keys (JObj [(''rank'', JNum 1), (''name'', JStr ''Ravi''), (''totalPoints'', JNum 7), (''_id'', JStr ''5e00000000000000000000a2'')])
     = [''rank'', ''name'', ''totalPoints'', ''_id''] \<and>
   keys (JObj [(''rank'', JNum 1), (''name'', JStr ''Ravi''), (''totalPoints'', JNum 7), (''_id'', JStr ''5e00000000000000000000a2'')])
     \<noteq> [''rank'', ''name'', ''totalPoints'', ''id'']"
  by (simp add: storage_defs sample_defs keys_def)

section \<open>Registration\<close>

lemma getLeaderboard_available:
  "available ev FindSorted \<Longrightarrow> \<exists>board. getLeaderboard ev s = (Inr board, record_call FindSorted s)"
  by (simp add: getLeaderboard_def User_find_sorted_def)

lemma getLeaderboard_error:
  "getLeaderboard ev s = (Inl e, s1) \<Longrightarrow> e = StorageFailure"
  by (auto simp: getLeaderboard_def User_find_sorted_def split: if_splits)

lemma duplicate_key_new_User:
  "duplicate_key (new_User oid n) us \<longleftrightarrow> (\<exists>u \<in> set us. user_id u = oid \<or> name u = n)"
  by (simp add: duplicate_key_def new_User_def)

text \<open>
  C4. A name that is present, not empty and held by no user is registered: with the
  storage layer answering and a fresh identifier generated, POST /api/users answers 201
  with the created user, whose \<open>totalPoints\<close> is 0, and a GET /api/users that follows
  answers 200 with all stored users, that user among them.
\<close>

theorem registration_creates_user:
  assumes "n \<noteq> []"
    and "n \<notin> set (map name (users s))"
    and "newObjectId ev 0 \<notin> set (map user_id (users s))"
    and "available ev SaveNewUser" and "available ev FindSorted"
    and "available ev2 Find"
  shows "fst (post_users ev (Some n) s)
           = \<lparr>status = 201, body = JDoc \<lparr>user_id = newObjectId ev 0, name = n, totalPoints = 0\<rparr>\<rparr> \<and>
         fst (get_users ev2 (snd (post_users ev (Some n) s)))
           = \<lparr>status = 200, body = JArr (map JDoc (users (snd (post_users ev (Some n) s))))\<rparr> \<and>
         \<lparr>user_id = newObjectId ev 0, name = n, totalPoints = 0\<rparr>
           \<in> set (users (snd (post_users ev (Some n) s)))"
proof -
  let ?doc = "new_User (newObjectId ev 0) n"
  let ?s1 = "record_call SaveNewUser s\<lparr>users := users s @ [?doc]\<rparr>"
  from assms(2,3) have "\<not> duplicate_key ?doc (users s)"
    by (auto simp: duplicate_key_new_User image_iff)
  with assms(4) have save: "save_new_user ev ?doc s = (Inr (), ?s1)"
    by (simp add: save_new_user_def Let_def)
  from getLeaderboard_available [OF assms(5)] obtain board
    where board: "getLeaderboard ev ?s1 = (Inr board, record_call FindSorted ?s1)" by blast
  from assms(1) save board
  have "post_users ev (Some n) s
          = (\<lparr>status = 201, body = JDoc ?doc\<rparr>, io_emit (JArr board) (record_call FindSorted ?s1))"
    by (simp add: post_users_def Let_def)
  with assms(6) show ?thesis
    by (simp add: get_users_def User_find_def new_User_def)
qed

theorem registration_creates_user_witness:
  "''Mina'' \<noteq> [] \<and>
   ''Mina'' \<notin> set (map name (users sample_state)) \<and>
   newObjectId sample_env 0 \<notin> set (map user_id (users sample_state)) \<and>
   available sample_env SaveNewUser \<and> available sample_env FindSorted \<and>
   available sample_env Find \<and>
   fst (post_users sample_env (Some ''Mina'') sample_state)
     = \<lparr>status = 201, body = JDoc \<lparr>user_id = ''6f0000000000000000000a00'', name = ''Mina'', totalPoints = 0\<rparr>\<rparr> \<and>
   body (fst (get_users sample_env (snd (post_users sample_env (Some ''Mina'') sample_state))))
     = JArr [JDoc \<lparr>user_id = ''5e00000000000000000000a1'', name = ''Asha'', totalPoints = 3\<rparr>,
             JDoc \<lparr>user_id = ''5e00000000000000000000a2'', name = ''Ravi'', totalPoints = 7\<rparr>,
             JDoc \<lparr>user_id = ''6f0000000000000000000a00'', name = ''Mina'', totalPoints = 0\<rparr>]"
  using registration_creates_user [of "''Mina''" sample_state sample_env sample_env]
  by (simp add: handler_defs storage_defs sample_defs)

text \<open>
  C5. POST /api/users with a name that a user already holds answers 409 with the message
  of the source, leaves users and clients as they were, and has sent the storage layer
  nothing but the save: no query comes before it. Registering a name and then the same name
  again answers 201 and then 409. The answer is 409 exactly when the save is rejected with
  the duplicate-key error.
\<close>

theorem duplicate_name_conflict:
  "(n \<noteq> [] \<and> n \<in> set (map name (users s)) \<and> available ev SaveNewUser \<longrightarrow>
      fst (post_users ev (Some n) s) = message 409 ''Error: This user name already exists.'' \<and>
      users (snd (post_users ev (Some n) s)) = users s \<and>
      clients (snd (post_users ev (Some n) s)) = clients s \<and>
      calls (snd (post_users ev (Some n) s)) = calls s @ [SaveNewUser]) \<and>
   (status (fst (post_users ev (Some n) s)) = 201 \<and> available ev2 SaveNewUser \<longrightarrow>
      fst (post_users ev2 (Some n) (snd (post_users ev (Some n) s)))
        = message 409 ''Error: This user name already exists.'') \<and>
   (status (fst (post_users ev nm s)) = 409 \<longleftrightarrow>
      (\<exists>m. nm = Some m \<and> m \<noteq> [] \<and>
           fst (save_new_user ev (new_User (newObjectId ev 0) m) s) = Inl DuplicateKey))"
proof -
  have held: "fst (post_users e (Some n) t) = message 409 ''Error: This user name already exists.'' \<and>
      users (snd (post_users e (Some n) t)) = users t \<and>
      clients (snd (post_users e (Some n) t)) = clients t \<and>
      calls (snd (post_users e (Some n) t)) = calls t @ [SaveNewUser]"
    if "n \<noteq> []" and "n \<in> set (map name (users t))" and "available e SaveNewUser" for e t
  proof -
    from that(2) have "duplicate_key (new_User (newObjectId e 0) n) (users t)"
      by (auto simp: duplicate_key_new_User)
    with that(1,3) have "post_users e (Some n) t
        = (message 409 ''Error: This user name already exists.'', record_call SaveNewUser t)"
      by (simp add: post_users_def save_new_user_def users_error_def Let_def)
    then show ?thesis by simp
  qed
  have twice: "fst (post_users ev2 (Some n) (snd (post_users ev (Some n) s)))
        = message 409 ''Error: This user name already exists.''"
    if "status (fst (post_users ev (Some n) s)) = 201" and "available ev2 SaveNewUser"
  proof -
    obtain res s' where r: "post_users ev (Some n) s = (res, s')"
      by (cases "post_users ev (Some n) s")
    with that(1) have "status res = 201" by simp
    from post_users_created [OF r this] obtain t1 t2 board where
      n: "n \<noteq> []"
      and t1: "save_new_user ev (new_User (newObjectId ev 0) n) s = (Inr (), t1)"
      and t2: "getLeaderboard ev t1 = (Inr board, t2)" and s': "s' = io_emit (JArr board) t2"
      by auto
    from save_new_user_ok [OF t1] getLeaderboard_ok [OF t2] s'
    have "users s' = users s @ [new_User (newObjectId ev 0) n]" by simp
    then have "n \<in> set (map name (users s'))" by (simp add: new_User_def)
    from held [OF n this that(2)] r show ?thesis by simp
  qed
  have signal: "status (fst (post_users ev nm s)) = 409 \<longleftrightarrow>
      (\<exists>m. nm = Some m \<and> m \<noteq> [] \<and>
           fst (save_new_user ev (new_User (newObjectId ev 0) m) s) = Inl DuplicateKey)"
  proof (cases nm)
    case None
    then show ?thesis by (simp add: post_users_def)
  next
    case (Some m)
    show ?thesis
    proof (cases "m = []")
      case True
      with Some show ?thesis by (simp add: post_users_def)
    next
      case False
      obtain r t1 where sv: "save_new_user ev (new_User (newObjectId ev 0) m) s = (r, t1)"
        by (cases "save_new_user ev (new_User (newObjectId ev 0) m) s")
      show ?thesis
      proof (cases r)
        case (Inl e)
        with Some False sv show ?thesis
          by (cases e) (simp_all add: post_users_def users_error_def Let_def)
      next
        case (Inr u)
        obtain r2 t2 where lb: "getLeaderboard ev t1 = (r2, t2)"
          by (cases "getLeaderboard ev t1")
        show ?thesis
        proof (cases r2)
          case (Inl e)
          with lb have "e = StorageFailure" by (auto dest: getLeaderboard_error)
          with Some False sv Inr lb Inl show ?thesis
            by (simp add: post_users_def users_error_def Let_def)
        next
          case (Inr board)
          with Some False sv \<open>r = Inr u\<close> lb show ?thesis
            by (simp add: post_users_def Let_def)
        qed
      qed
    qed
  qed
  from held twice signal show ?thesis by blast
qed

theorem duplicate_name_conflict_witness:
  "''Asha'' \<in> set (map name (users sample_state)) \<and>
   available sample_env SaveNewUser \<and>
   post_users sample_env (Some ''Asha'') sample_state
     = (message 409 ''Error: This user name already exists.'',
        sample_state\<lparr>calls := [SaveNewUser]\<rparr>) \<and>
   fst (save_new_user sample_env (new_User (newObjectId sample_env 0) ''Asha'') sample_state)
     = Inl DuplicateKey \<and>
   status (fst (post_users sample_env (Some ''Mina'') sample_state)) = 201 \<and>
   status (fst (post_users sample_env (Some ''Mina'')
                  (snd (post_users sample_env (Some ''Mina'') sample_state)))) = 409"
  using duplicate_name_conflict [of "''Asha''" sample_state sample_env sample_env "Some ''Asha''"]
    duplicate_name_conflict [of "''Mina''" sample_state sample_env sample_env "Some ''Mina''"]
  by (simp add: handler_defs storage_defs sample_defs)

section \<open>Claims that award nothing\<close>

lemma find_absent: "\<forall>u \<in> set us. \<not> P u \<Longrightarrow> find P us = None"
  by (simp add: find_None_iff)

text \<open>
  C6. A claim whose \<open>userId\<close> casts to an identifier that no stored user has is answered
  404 when the lookup is answered; users, claim history and clients are as before, and the
  lookup is the only storage call sent. A claim without \<open>userId\<close> is answered 400.
\<close>

theorem claim_unknown_user:
  "(uid \<noteq> [] \<and> castObjectId ev uid = Some oid \<and> oid \<notin> set (map user_id (users s)) \<and>
    available ev FindById \<longrightarrow>
      fst (post_claim ev (Some uid) s) = message 404 ''User not found'' \<and>
      users (snd (post_claim ev (Some uid) s)) = users s \<and>
      claims (snd (post_claim ev (Some uid) s)) = claims s \<and>
      clients (snd (post_claim ev (Some uid) s)) = clients s \<and>
      calls (snd (post_claim ev (Some uid) s)) = calls s @ [FindById]) \<and>
   post_claim ev None s = (message 400 ''User ID is required'', s)"
proof (intro conjI impI)
  assume a: "uid \<noteq> [] \<and> castObjectId ev uid = Some oid \<and>
    oid \<notin> set (map user_id (users s)) \<and> available ev FindById"
  then have "find (\<lambda>u. user_id u = oid) (users s) = None" by (intro find_absent) auto
  with a have "post_claim ev (Some uid) s = (message 404 ''User not found'', record_call FindById s)"
    by (simp add: post_claim_def User_findById_def)
  then show "fst (post_claim ev (Some uid) s) = message 404 ''User not found''"
    and "users (snd (post_claim ev (Some uid) s)) = users s"
    and "claims (snd (post_claim ev (Some uid) s)) = claims s"
    and "clients (snd (post_claim ev (Some uid) s)) = clients s"
    and "calls (snd (post_claim ev (Some uid) s)) = calls s @ [FindById]"
    by simp_all
next
  show "post_claim ev None s = (message 400 ''User ID is required'', s)"
    by (simp add: post_claim_def)
qed

theorem claim_unknown_user_witness:
  "castObjectId sample_env ''5e00000000000000000000ff'' = Some ''5e00000000000000000000ff'' \<and>
   ''5e00000000000000000000ff'' \<notin> set (map user_id (users sample_state)) \<and>
   available sample_env FindById \<and>
   post_claim sample_env (Some ''5e00000000000000000000ff'') sample_state
     = (message 404 ''User not found'', sample_state\<lparr>calls := [FindById]\<rparr>) \<and>
   status (fst (post_claim sample_env None sample_state)) = 400"
  using claim_unknown_user [of "''5e00000000000000000000ff''" sample_env "''5e00000000000000000000ff''" sample_state]
  by (simp add: handler_defs storage_defs sample_defs)







section \<open>Seeding at startup\<close>

lemma insert_ordered_fresh:
  "distinct (map user_id (us @ ds)) \<Longrightarrow> distinct (map name (us @ ds)) \<Longrightarrow>
   insert_ordered ds us = (None, us @ ds)"
proof (induction ds arbitrary: us)
  case Nil
  then show ?case by simp
next
  case (Cons d ds)
  from Cons.prems have "\<not> duplicate_key d us"
    by (auto simp: duplicate_key_def image_iff)
  moreover from Cons.prems have "insert_ordered ds (us @ [d]) = (None, (us @ [d]) @ ds)"
    by (intro Cons.IH) simp_all
  ultimately show ?case by simp
qed

lemma seed_ids:
  "map user_id (map (\<lambda>(i, n). new_User (newObjectId ev i) n) (enumerate 0 ns))
     = map (newObjectId ev) [0..<length ns]"
proof -
  have "map user_id (map (\<lambda>(i, n). new_User (newObjectId ev i) n) (enumerate 0 ns))
          = map (\<lambda>p. newObjectId ev (fst p)) (enumerate 0 ns)"
    by (simp add: new_User_def split_def)
  also have "\<dots> = map (newObjectId ev) [0..<0 + length ns]" by (rule map_enumerate_fst)
  finally show ?thesis by simp
qed

lemma seed_names:
  "map name (map (\<lambda>(i, n). new_User (newObjectId ev i) n) (enumerate 0 ns)) = ns"
  by (simp add: new_User_def split_def comp_def)

lemma seed_points:
  "map totalPoints (map (\<lambda>(i, n). new_User (newObjectId ev i) n) (enumerate 0 ns))
     = replicate (length ns) 0"
  by (simp add: new_User_def split_def comp_def map_replicate_const)

lemma length_initialUsers: "length initialUsers = 10"
  by (simp add: initialUsers_def)

lemma distinct_initialUsers: "distinct initialUsers"
  by (simp add: initialUsers_def)

text \<open>
  C7. Started on an empty user collection, with the storage layer answering and ten
  distinct identifiers generated, seeding leaves exactly the ten users Rahul, Kamal, Sanak,
  Priya, Amit, Sunita, Vikram, Anjali, Deepak, Meera, each with \<open>totalPoints\<close> 0, and has
  sent one count and one insert of a batch of ten. Started on a user collection that is not
  empty, seeding leaves users, claim history and clients as they were.
\<close>

theorem seeding_inserts_ten_users_once:
  "(users s = [] \<and> available ev CountDocuments \<and> available ev (InsertMany 10) \<and>
    distinct (map (newObjectId ev) [0..<10]) \<longrightarrow>
      map name (users (seedDatabase ev s))
        = [''Rahul'', ''Kamal'', ''Sanak'', ''Priya'', ''Amit'',
           ''Sunita'', ''Vikram'', ''Anjali'', ''Deepak'', ''Meera''] \<and>
      map totalPoints (users (seedDatabase ev s)) = [0, 0, 0, 0, 0, 0, 0, 0, 0, 0] \<and>
      calls (seedDatabase ev s) = calls s @ [CountDocuments, InsertMany 10]) \<and>
   (users s \<noteq> [] \<longrightarrow>
      users (seedDatabase ev s) = users s \<and>
      claims (seedDatabase ev s) = claims s \<and>
      clients (seedDatabase ev s) = clients s)"
proof (intro conjI impI)
  let ?docs = "map (\<lambda>(i, n). new_User (newObjectId ev i) n) (enumerate 0 initialUsers)"
  assume a: "users s = [] \<and> available ev CountDocuments \<and> available ev (InsertMany 10) \<and>
    distinct (map (newObjectId ev) [0..<10])"
  have len: "length ?docs = 10" by (simp add: length_initialUsers)
  from a have "distinct (map user_id ([] @ ?docs))"
    by (simp only: append_Nil seed_ids length_initialUsers)
  moreover have "distinct (map name ([] @ ?docs))"
    by (simp only: append_Nil seed_names distinct_initialUsers)
  ultimately have "insert_ordered ?docs [] = (None, [] @ ?docs)"
    by (rule insert_ordered_fresh)
  with a len have seeded: "seedDatabase ev s
      = record_call (InsertMany 10) (record_call CountDocuments s)\<lparr>users := ?docs\<rparr>"
    by (simp add: seedDatabase_def User_countDocuments_def User_insertMany_def Let_def)
  from seeded have docs: "users (seedDatabase ev s) = ?docs" by simp
  show "map name (users (seedDatabase ev s))
        = [''Rahul'', ''Kamal'', ''Sanak'', ''Priya'', ''Amit'',
           ''Sunita'', ''Vikram'', ''Anjali'', ''Deepak'', ''Meera'']"
    by (simp only: docs seed_names) (simp add: initialUsers_def)
  have "replicate (length initialUsers) (0::int) = [0, 0, 0, 0, 0, 0, 0, 0, 0, 0]"
    by (simp add: initialUsers_def)
  then show "map totalPoints (users (seedDatabase ev s)) = [0, 0, 0, 0, 0, 0, 0, 0, 0, 0]"
    by (simp only: docs seed_points)
  show "calls (seedDatabase ev s) = calls s @ [CountDocuments, InsertMany 10]"
    by (simp add: seeded)
next
  assume "users s \<noteq> []"
  then have "seedDatabase ev s = record_call CountDocuments s"
    by (simp add: seedDatabase_def User_countDocuments_def)
  then show "users (seedDatabase ev s) = users s"
    and "claims (seedDatabase ev s) = claims s"
    and "clients (seedDatabase ev s) = clients s"
    by simp_all
qed

theorem seeding_inserts_ten_users_once_witness:
  "users (sample_state\<lparr>users := []\<rparr>) = [] \<and>
   distinct (map (newObjectId sample_env) [0..<10]) \<and>
   map name (users (seedDatabase sample_env (sample_state\<lparr>users := []\<rparr>)))
     = [''Rahul'', ''Kamal'', ''Sanak'', ''Priya'', ''Amit'',
      ''Sunita'', ''Vikram'', ''Anjali'', ''Deepak'', ''Meera''] \<and>
   calls (seedDatabase sample_env (sample_state\<lparr>users := []\<rparr>)) = [CountDocuments, InsertMany 10] \<and>
   users sample_state \<noteq> [] \<and>
   users (seedDatabase sample_env sample_state) = users sample_state"
proof -
  have ids: "distinct (map (newObjectId sample_env) [0..<10])"
    by (simp add: sample_defs upt_rec [of _ "numeral n" for n] upt_rec [of _ "Suc n" for n])
  have av: "available sample_env CountDocuments \<and> available sample_env (InsertMany 10)"
    by (simp add: sample_defs)
  have empty: "users (sample_state\<lparr>users := []\<rparr>) = []" by simp
  have full: "users sample_state \<noteq> []" by (simp add: sample_defs)
  have c: "calls sample_state = []" by (simp add: sample_defs)
  from seeding_inserts_ten_users_once [of "sample_state\<lparr>users := []\<rparr>" sample_env]
    seeding_inserts_ten_users_once [of sample_state sample_env] ids av empty full c
  show ?thesis by simp
qed

section \<open>A new connection\<close>

lemma socket_emit_others:
  "socket \<notin> fst ` set cs \<Longrightarrow>
   map (\<lambda>(sid, inbox). if sid = socket then (sid, inbox @ [payload]) else (sid, inbox)) cs = cs"
  by (induction cs) auto

text \<open>
  C9. When a socket connects and the leaderboard read is answered, that socket has received
  exactly one payload, the leaderboard of the current users, and every other client has
  received what it had received before; users and claim history are untouched.
\<close>

theorem connection_sends_leaderboard:
  assumes "socket \<notin> fst ` set (clients s)" and "available ev FindSorted"
  shows "\<exists>board. fst (getLeaderboard ev s) = Inr board \<and>
           ranked_descending (users s) (JArr board) \<and>
           clients (on_connection ev socket s) = clients s @ [(socket, [JArr board])] \<and>
           users (on_connection ev socket s) = users s \<and>
           claims (on_connection ev socket s) = claims s"
proof -
  let ?s0 = "s\<lparr>clients := clients s @ [(socket, [])]\<rparr>"
  from getLeaderboard_available [OF assms(2)] obtain board
    where b: "getLeaderboard ev s = (Inr board, record_call FindSorted s)" by blast
  from getLeaderboard_available [OF assms(2)] obtain board0
    where b0: "getLeaderboard ev ?s0 = (Inr board0, record_call FindSorted ?s0)" by blast
  from getLeaderboard_ok [OF b] getLeaderboard_ok [OF b0] have same: "board0 = board" by simp
  from b0 have "on_connection ev socket s = socket_emit socket (JArr board0) (record_call FindSorted ?s0)"
    by (simp add: on_connection_def)
  with assms(1) same have "clients (on_connection ev socket s) = clients s @ [(socket, [JArr board])]"
    and "users (on_connection ev socket s) = users s"
    and "claims (on_connection ev socket s) = claims s"
    by (simp_all add: socket_emit_def socket_emit_others)
  with b getLeaderboard_ranked [OF b] show ?thesis by simp
qed

theorem connection_sends_leaderboard_witness:
  "''s3'' \<notin> fst ` set (clients sample_state) \<and>
   available sample_env FindSorted \<and>
   clients (on_connection sample_env ''s3'' sample_state)
     = [(''s1'', []), (''s2'', []),
        (''s3'', [JArr
     [JObj [(''rank'', JNum 1), (''name'', JStr ''Ravi''), (''totalPoints'', JNum 7), (''_id'', JStr ''5e00000000000000000000a2'')],
      JObj [(''rank'', JNum 2), (''name'', JStr ''Asha''), (''totalPoints'', JNum 3), (''_id'', JStr ''5e00000000000000000000a1'')]]])]"
  using connection_sends_leaderboard [of "''s3''" sample_state sample_env]
  by (simp add: handler_defs storage_defs sample_defs)

end
